theory Spec2Isabelle
  imports Complex_Main "HOL-Library.AList" "HOL-Library.Word"
begin

section \<open>The relay server: session registry, timers, rooms\<close>

text \<open>
  The socket handler of the server (the file of the registry and the relay) keeps one
  \<^verbatim>\<open>Map<string, { socketId, timeout }>\<close> called \<^verbatim>\<open>sessions\<close>. A JavaScript
  \<^verbatim>\<open>Map\<close> iterates in insertion order, and the disconnect handler iterates it, so
  the registry is an association list with the operations of \<^verbatim>\<open>Map\<close>:
  \<^verbatim>\<open>get\<close> / \<^verbatim>\<open>has\<close> are \<open>map_of\<close>, \<^verbatim>\<open>set\<close> is \<open>AList.update\<close> (overwrite
  in place, else append) and \<^verbatim>\<open>delete\<close> is \<open>AList.delete\<close>.

  What the JavaScript runtime and socket.io keep is explicit state:
  \<^item> \<open>timers\<close>: the timeouts that are pending (set by \<^verbatim>\<open>setTimeout\<close>, neither fired
    nor cleared). The only callback the server ever schedules is the expiry closure of
    \<^verbatim>\<open>create-session\<close>, which captures \<^verbatim>\<open>socket\<close> and \<^verbatim>\<open>code\<close>; a timer
    therefore records these two and its due time;
  \<^item> \<open>rooms\<close>: the members of every socket.io room;
  \<^item> \<open>uploads\<close>: the file names in the uploads directory;
  \<^item> \<open>outbox\<close>: every \<^verbatim>\<open>emit\<close> in order, with the connections it was delivered to.
  \<^verbatim>\<open>console.log\<close> output is not part of the state.
\<close>

type_synonym socket_id = string
type_synonym code = string
type_synonym byte = "8 word"

text \<open>
  A JavaScript number as far as the progress value of a chunk needs it: a finite value,
  or the results of dividing by zero. Finite arithmetic is exact here (rationals); the
  rounding of IEEE doubles is not modelled.
\<close>

datatype number = Num rat | NaN | Infinity

record session =
  socketId :: socket_id
  timeout :: nat

record timer =
  handle :: nat
  due :: nat
  tsocket :: socket_id
  tcode :: code

datatype target =
  ToSocket socket_id
  | ToRoomExcept code socket_id

datatype message =
  SessionCreated code
  | InvalidSession
  | ReceiverJoined
  | SessionExpired
  | ErrorMsg string
  | FileMeta string int string
  | FileChunk "byte list" number
  | TransferComplete

record emission =
  target :: target
  delivered :: "socket_id set"
  message :: message

record server =
  sessions :: "(code \<times> session) list"
  timers :: "timer list"
  nextHandle :: nat
  clock :: nat
  rooms :: "code \<Rightarrow> socket_id set"
  uploads :: "string list"
  outbox :: "emission list"

definition SESSION_TIMEOUT :: nat where
  "SESSION_TIMEOUT = 300000"

definition MAX_FILE_SIZE :: int where
  "MAX_FILE_SIZE = 1024 * 1024 * 1024 * 2"

definition CHUNK_SIZE :: nat where
  "CHUNK_SIZE = 64 * 1024"

definition initial :: server where
  "initial = \<lparr> sessions = [], timers = [], nextHandle = 0, clock = 0,
               rooms = (\<lambda>_. {}), uploads = [], outbox = [] \<rparr>"

subsection \<open>The relay hub (socket.io)\<close>

text \<open>
  \<^verbatim>\<open>socket.emit(ev)\<close> reaches the socket itself; \<^verbatim>\<open>socket.to(room).emit(ev)\<close>
  reaches every member of the room other than the socket. \<^verbatim>\<open>socket.join(room)\<close>
  adds the socket to the room.
\<close>

fun recipients :: "server \<Rightarrow> target \<Rightarrow> socket_id set" where
  "recipients st (ToSocket sid) = {sid}"
| "recipients st (ToRoomExcept room sid) = rooms st room - {sid}"

definition emit :: "target \<Rightarrow> message \<Rightarrow> server \<Rightarrow> server" where
  "emit tgt msg st =
     st\<lparr>outbox := outbox st @ [\<lparr>target = tgt, delivered = recipients st tgt, message = msg\<rparr>]\<rparr>"

definition join :: "socket_id \<Rightarrow> code \<Rightarrow> server \<Rightarrow> server" where
  "join sid room st = st\<lparr>rooms := (rooms st)(room := insert sid (rooms st room))\<rparr>"

subsection \<open>Timers (the JavaScript runtime)\<close>

text \<open>
  \<^verbatim>\<open>setTimeout(cb, ms)\<close> returns a fresh handle and makes the timer pending;
  \<^verbatim>\<open>clearTimeout(h)\<close> removes it from the pending ones, and is a no-op when the
  handle is not pending.
\<close>

definition setTimeout :: "socket_id \<Rightarrow> code \<Rightarrow> nat \<Rightarrow> server \<Rightarrow> nat \<times> server" where
  "setTimeout sid c ms st =
     (nextHandle st,
      st\<lparr>timers := timers st @ [\<lparr>handle = nextHandle st, due = clock st + ms,
                                   tsocket = sid, tcode = c\<rparr>],
         nextHandle := Suc (nextHandle st)\<rparr>)"

definition clearTimeout :: "nat \<Rightarrow> server \<Rightarrow> server" where
  "clearTimeout h st = st\<lparr>timers := filter (\<lambda>t. handle t \<noteq> h) (timers st)\<rparr>"

definition pending :: "server \<Rightarrow> nat \<Rightarrow> bool" where
  "pending st h = (h \<in> handle ` set (timers st))"

subsection \<open>cleanupSession\<close>

text \<open>
  \<^verbatim>\<open>file.startsWith(sessionCode)\<close>. The uploads directory is a list of names on
  which \<^verbatim>\<open>readdirSync\<close> and \<^verbatim>\<open>unlinkSync\<close> succeed; the \<^verbatim>\<open>catch\<close> branches of
  the source only log.
\<close>

definition startsWith :: "string \<Rightarrow> string \<Rightarrow> bool" where
  "startsWith file p = (take (length p) file = p)"

definition cleanupSession :: "code \<Rightarrow> server \<Rightarrow> server" where
  "cleanupSession sessionCode st =
     (case map_of (sessions st) sessionCode of
        None \<Rightarrow> st
      | Some session \<Rightarrow>
          (let st1 = clearTimeout (timeout session) st;
               st2 = st1\<lparr>sessions := AList.delete sessionCode (sessions st1)\<rparr>
           in st2\<lparr>uploads := filter (\<lambda>file. \<not> startsWith file sessionCode) (uploads st2)\<rparr>))"

subsection \<open>The event handlers\<close>

definition createSession :: "socket_id \<Rightarrow> code \<Rightarrow> server \<Rightarrow> server" where
  "createSession sid c st =
     (let st1 = cleanupSession c st;
          (h, st2) = setTimeout sid c SESSION_TIMEOUT st1;
          st3 = st2\<lparr>sessions := AList.update c \<lparr>socketId = sid, timeout = h\<rparr> (sessions st2)\<rparr>;
          st4 = join sid c st3
      in emit (ToSocket sid) (SessionCreated c) st4)"

definition joinSession :: "socket_id \<Rightarrow> code \<Rightarrow> server \<Rightarrow> server" where
  "joinSession sid sessionCode st =
     (if map_of (sessions st) sessionCode = None
      then emit (ToSocket sid) InvalidSession st
      else emit (ToRoomExcept sessionCode sid) ReceiverJoined (join sid sessionCode st))"

definition fileMeta :: "socket_id \<Rightarrow> string \<Rightarrow> int \<Rightarrow> string \<Rightarrow> code \<Rightarrow> server \<Rightarrow> server" where
  "fileMeta sid name sz ty sessionCode st =
     (if map_of (sessions st) sessionCode = None
      then emit (ToSocket sid) InvalidSession st
      else if sz > MAX_FILE_SIZE
      then emit (ToSocket sid) (ErrorMsg ''File size exceeds 2GB limit'') st
      else emit (ToRoomExcept sessionCode sid) (FileMeta name sz ty) st)"

definition fileChunk :: "socket_id \<Rightarrow> byte list \<Rightarrow> code \<Rightarrow> number \<Rightarrow> server \<Rightarrow> server" where
  "fileChunk sid chunk sessionCode progress st =
     (if map_of (sessions st) sessionCode = None
      then emit (ToSocket sid) InvalidSession st
      else emit (ToRoomExcept sessionCode sid) (FileChunk chunk progress) st)"

definition transferComplete :: "socket_id \<Rightarrow> code \<Rightarrow> server \<Rightarrow> server" where
  "transferComplete sid sessionCode st =
     (if map_of (sessions st) sessionCode \<noteq> None
      then cleanupSession sessionCode (emit (ToRoomExcept sessionCode sid) TransferComplete st)
      else st)"

text \<open>
  The disconnect handler walks \<^verbatim>\<open>sessions.entries()\<close> and cleans up every entry
  the socket owns. Deleting the entry under the cursor does not disturb a \<^verbatim>\<open>Map\<close>
  iteration, so the walk visits the entries the registry had when it began. socket.io
  itself takes a disconnected socket out of every room.
\<close>

definition leaveAll :: "socket_id \<Rightarrow> server \<Rightarrow> server" where
  "leaveAll sid st = st\<lparr>rooms := (\<lambda>room. rooms st room - {sid})\<rparr>"

definition disconnect :: "socket_id \<Rightarrow> server \<Rightarrow> server" where
  "disconnect sid st =
     fold (\<lambda>(c, session) s. if socketId session = sid then cleanupSession c s else s)
          (sessions st) (leaveAll sid st)"

text \<open>
  The expiry closure of \<^verbatim>\<open>create-session\<close>, and the runtime firing a timer: a
  pending timer leaves the pending ones and its callback runs; a handle that is not
  pending (fired already, or cleared) runs nothing.
\<close>

definition expire :: "socket_id \<Rightarrow> code \<Rightarrow> server \<Rightarrow> server" where
  "expire sid c st = cleanupSession c (emit (ToRoomExcept c sid) SessionExpired st)"

definition fire :: "nat \<Rightarrow> server \<Rightarrow> server" where
  "fire h st =
     (case find (\<lambda>t. handle t = h) (timers st) of
        None \<Rightarrow> st
      | Some t \<Rightarrow> expire (tsocket t) (tcode t) (clearTimeout h st))"

text \<open>
  Time passing: the clock advances by \<open>d\<close> milliseconds, and the timers that are due
  fire, earliest first.
\<close>

definition elapse :: "nat \<Rightarrow> server \<Rightarrow> server" where
  "elapse d st =
     (let st1 = st\<lparr>clock := clock st + d\<rparr>
      in fold fire (map handle (sort_key due (filter (\<lambda>t. due t \<le> clock st1) (timers st1)))) st1)"

datatype event =
  CreateSession socket_id code
  | JoinSession socket_id code
  | FileMetaEv socket_id string int string code
  | FileChunkEv socket_id "byte list" code number
  | TransferCompleteEv socket_id code
  | Disconnect socket_id
  | Elapse nat

fun step :: "event \<Rightarrow> server \<Rightarrow> server" where
  "step (CreateSession sid c) st = createSession sid c st"
| "step (JoinSession sid c) st = joinSession sid c st"
| "step (FileMetaEv sid name sz ty c) st = fileMeta sid name sz ty c st"
| "step (FileChunkEv sid chunk c progress) st = fileChunk sid chunk c progress st"
| "step (TransferCompleteEv sid c) st = transferComplete sid c st"
| "step (Disconnect sid) st = disconnect sid st"
| "step (Elapse d) st = elapse d st"

definition run :: "event list \<Rightarrow> server \<Rightarrow> server" where
  "run evs st = fold step evs st"

section \<open>The browser client: sender and receiver\<close>

text \<open>
  The page component keeps its state in React hooks. The model keeps the part the
  transfer protocol reads and writes: the file list, the progress table, the type of the
  status line and the speed reference. The texts shown to the user (status messages, the
  speed string that \<^verbatim>\<open>calculateSpeed\<close> formats from the clock) are display only;
  the speed string and the clock value \<^verbatim>\<open>Date.now()\<close> are inputs of the listeners.
\<close>

datatype file_status = Pending | Transferring | Completed | Error

datatype TransferStatus = idle | waiting | transferring | completed | error

record FileData =
  id_fd :: string
  name :: string
  size_fd :: int
  type_fd :: string
  file_fd :: "byte list option"
  received :: "nat option"
  chunks :: "byte list list option"
  status :: "file_status option"

record progress_entry =
  bytes :: nat
  total :: int
  speed :: string

record app =
  sessionCode :: code
  status_type :: TransferStatus
  files :: "FileData list"
  transferProgress :: "string \<rightharpoonup> progress_entry"
  peerConnected :: bool
  speedRef :: "nat \<times> nat"

subsection \<open>Receiver listeners\<close>

text \<open>
  \<^verbatim>\<open>socket.on('file-meta', ...)\<close>: the identifier comes from \<^verbatim>\<open>uuidv4()\<close> and is
  an input.
\<close>

definition fileMetaListener :: "string \<Rightarrow> string \<Rightarrow> int \<Rightarrow> string \<Rightarrow> app \<Rightarrow> app" where
  "fileMetaListener fileId nm sz ty st =
     st\<lparr>status_type := transferring,
        files := files st @ [\<lparr>id_fd = fileId, name = nm, size_fd = sz, type_fd = ty,
                               file_fd = None, received = Some 0, chunks = Some [],
                               status = Some Transferring\<rparr>]\<rparr>"

text \<open>
  \<^verbatim>\<open>socket.on('file-chunk', ...)\<close>. The listener is a closure: \<^verbatim>\<open>files\<close> and
  \<^verbatim>\<open>transferProgress\<close> in its body are the values of the render that created it
  (the first two arguments here), while the functional updates
  \<^verbatim>\<open>setFiles(prev => ...)\<close> and \<^verbatim>\<open>setTransferProgress(prev => ...)\<close> work on the
  current state. \<^verbatim>\<open>files[files.length - 1]\<close> of an empty array is
  \<^verbatim>\<open>undefined\<close>; \<^verbatim>\<open>x || 0\<close> replaces a missing value by 0.
\<close>

definition lastFileOf :: "FileData list \<Rightarrow> FileData option" where
  "lastFileOf fs = (if fs = [] then None else Some (last fs))"

definition fileChunkListener ::
  "FileData list \<Rightarrow> (string \<rightharpoonup> progress_entry) \<Rightarrow> nat \<Rightarrow> string \<Rightarrow>
   byte list \<Rightarrow> number \<Rightarrow> app \<Rightarrow> app" where
  "fileChunkListener files0 transferProgress0 now spd chunk progress st =
     (let lastFile = lastFileOf files0;
          lastProgress =
            (case lastFile of
               None \<Rightarrow> 0
             | Some lf \<Rightarrow> (case transferProgress0 (id_fd lf) of None \<Rightarrow> 0 | Some e \<Rightarrow> bytes e));
          bytesReceived = length chunk
      in case lastFile of
           None \<Rightarrow> st
         | Some lf \<Rightarrow>
             st\<lparr>transferProgress :=
                  (transferProgress st)(id_fd lf \<mapsto>
                     \<lparr>bytes = lastProgress + bytesReceived, total = size_fd lf, speed = spd\<rparr>),
                speedRef := (now, lastProgress + bytesReceived),
                files :=
                  map (\<lambda>f. if id_fd f = id_fd lf
                           then f\<lparr>received :=
                                    Some ((case received f of None \<Rightarrow> 0 | Some r \<Rightarrow> r) + bytesReceived),
                                  chunks :=
                                    Some ((case chunks f of None \<Rightarrow> [] | Some cs \<Rightarrow> cs) @ [chunk])\<rparr>
                           else f)
                      (files st)\<rparr>)"

text \<open>
  The listeners are registered once, by the effect with the empty dependency list, so the
  render they close over is the first one: \<^verbatim>\<open>useState<FileData[]>([])\<close> and
  \<^verbatim>\<open>useState({})\<close>.
\<close>

definition onFileChunk :: "nat \<Rightarrow> string \<Rightarrow> byte list \<Rightarrow> number \<Rightarrow> app \<Rightarrow> app" where
  "onFileChunk = fileChunkListener [] Map.empty"

text \<open>\<^verbatim>\<open>socket.on('transfer-complete', ...)\<close>.\<close>

definition transferCompleteListener :: "app \<Rightarrow> app" where
  "transferCompleteListener st =
     st\<lparr>status_type := completed,
        files := map (\<lambda>f. f\<lparr>status := (if status f = Some Transferring
                                         then Some Completed else status f)\<rparr>)
                     (files st)\<rparr>"

subsection \<open>Sender: sendFiles\<close>

datatype client_emit =
  EmitFileMeta string int string code
  | EmitFileChunk "byte list" code number
  | EmitTransferComplete code

text \<open>
  \<^verbatim>\<open>(offset / fileSize) * 100\<close> in JavaScript numbers: 0/0 is NaN, a positive
  number over 0 is Infinity, and both survive the multiplication.
\<close>

definition progressOf :: "nat \<Rightarrow> int \<Rightarrow> number" where
  "progressOf offset fileSize =
     (if fileSize = 0 then (if offset = 0 then NaN else Infinity)
      else Num (of_nat offset / of_int fileSize * 100))"

text \<open>\<^verbatim>\<open>blob.slice(start, end)\<close> clamps both ends to the blob.\<close>

definition slice :: "byte list \<Rightarrow> nat \<Rightarrow> nat \<Rightarrow> byte list" where
  "slice content start stop = take (stop - start) (drop start content)"

text \<open>
  \<^verbatim>\<open>readNextChunk\<close> and \<^verbatim>\<open>fileReader.onload\<close> call each other until
  \<^verbatim>\<open>offset < fileSize\<close> fails. Every read is taken to succeed; its result is an
  \<^verbatim>\<open>ArrayBuffer\<close>, which is truthy also when it is empty, so the guard
  \<^verbatim>\<open>if (!e.target?.result) return\<close> never leaves the loop. The loop need not end
  (a declared size beyond the content reads empty chunks forever): not returning is
  \<open>None\<close>. The result is what was emitted and the final offset.
\<close>

partial_function (option) readLoop ::
  "byte list \<Rightarrow> int \<Rightarrow> code \<Rightarrow> nat \<Rightarrow> client_emit list \<Rightarrow> (client_emit list \<times> nat) option" where
  "readLoop content fileSize sc offset out =
     (let chunk = slice content offset (offset + CHUNK_SIZE);
          out1 = out @ [EmitFileChunk chunk sc (progressOf offset fileSize)];
          offset1 = offset + length chunk
      in if int offset1 < fileSize
         then readLoop content fileSize sc offset1 out1
         else Some (out1 @ [EmitTransferComplete sc], offset1))"

text \<open>
  \<^verbatim>\<open>sendFiles\<close>: only \<^verbatim>\<open>files[0]\<close> is sent. \<open>isConnected\<close> is
  \<^verbatim>\<open>socketRef.current?.connected\<close>.
\<close>

definition sendFiles ::
  "bool \<Rightarrow> nat \<Rightarrow> string \<Rightarrow> app \<Rightarrow> (app \<times> client_emit list) option" where
  "sendFiles isConnected now spd st =
     (case files st of
        [] \<Rightarrow> Some (st\<lparr>status_type := error\<rparr>, [])
      | f0 # _ \<Rightarrow>
          if \<not> isConnected then Some (st\<lparr>status_type := error\<rparr>, [])
          else (case file_fd f0 of
                  None \<Rightarrow> Some (st, [])
                | Some content \<Rightarrow>
                    (let st1 = st\<lparr>files := map (\<lambda>f. if id_fd f = id_fd f0
                                                       then f\<lparr>status := Some Transferring\<rparr> else f)
                                                  (files st)\<rparr>;
                         out = [EmitFileMeta (name f0) (size_fd f0) (type_fd f0) (sessionCode st)]
                     in case readLoop content (size_fd f0) (sessionCode st) 0 out of
                          None \<Rightarrow> None
                        | Some (out1, offset1) \<Rightarrow>
                            Some (st1\<lparr>transferProgress :=
                                        (transferProgress st1)(id_fd f0 \<mapsto>
                                           \<lparr>bytes = offset1, total = size_fd f0, speed = spd\<rparr>),
                                      speedRef := (now, offset1),
                                      status_type := completed\<rparr>,
                                  out1))))"

text \<open>The chunk events of an emission sequence, each with its progress tag.\<close>

fun chunkEvents :: "client_emit list \<Rightarrow> (byte list \<times> number) list" where
  "chunkEvents [] = []"
| "chunkEvents (EmitFileChunk chunk sc progress # es) = (chunk, progress) # chunkEvents es"
| "chunkEvents (_ # es) = chunkEvents es"

text \<open>\<^verbatim>\<open>handleFileSelect\<close> builds the entry of a selected file from the \<^verbatim>\<open>File\<close>.\<close>

definition selectedFile :: "string \<Rightarrow> string \<Rightarrow> string \<Rightarrow> byte list \<Rightarrow> FileData" where
  "selectedFile fileId nm ty content =
     \<lparr>id_fd = fileId, name = nm, size_fd = int (length content), type_fd = ty,
      file_fd = Some content, received = Some 0, chunks = Some [], status = Some Pending\<rparr>"

section \<open>Properties\<close>

subsection \<open>Size ceiling of file-meta\<close>

text \<open>
  C2. A \<^verbatim>\<open>file-meta\<close> event on a live session: when the declared size is strictly
  greater than 2 GiB (2147483648 bytes) the only effect is one \<^verbatim>\<open>error\<close> event with
  the message text, sent to the caller, and nothing is rebroadcast to the room; when the
  size is at most the threshold, so also exactly 2 GiB, the only effect is the
  \<^verbatim>\<open>file-meta\<close> rebroadcast to the other members of the room.
\<close>

theorem fileMeta_size_ceiling:
  assumes live: "map_of (sessions st) c \<noteq> None"
  shows "MAX_FILE_SIZE = 2147483648
    \<and> (sz > MAX_FILE_SIZE \<longrightarrow>
         fileMeta sid nm sz ty c st =
           st\<lparr>outbox := outbox st @
              [\<lparr>target = ToSocket sid, delivered = {sid},
                message = ErrorMsg ''File size exceeds 2GB limit''\<rparr>]\<rparr>)
    \<and> (sz \<le> MAX_FILE_SIZE \<longrightarrow>
         fileMeta sid nm sz ty c st =
           st\<lparr>outbox := outbox st @
              [\<lparr>target = ToRoomExcept c sid,
                delivered = rooms st c - {sid},
                message = FileMeta nm sz ty\<rparr>]\<rparr>)"
  using live by (simp add: fileMeta_def emit_def MAX_FILE_SIZE_def)

theorem fileMeta_size_ceiling_witness:
  "outbox (fileMeta ''s1'' ''a.bin'' 2147483649 ''text/plain'' ''ABC12345''
             (joinSession ''s2'' ''ABC12345'' (createSession ''s1'' ''ABC12345'' initial)))
   = outbox (joinSession ''s2'' ''ABC12345'' (createSession ''s1'' ''ABC12345'' initial)) @
     [\<lparr>target = ToSocket ''s1'', delivered = {''s1''},
       message = ErrorMsg ''File size exceeds 2GB limit''\<rparr>]
  \<and> outbox (fileMeta ''s1'' ''a.bin'' 2147483648 ''text/plain'' ''ABC12345''
             (joinSession ''s2'' ''ABC12345'' (createSession ''s1'' ''ABC12345'' initial)))
   = outbox (joinSession ''s2'' ''ABC12345'' (createSession ''s1'' ''ABC12345'' initial)) @
     [\<lparr>target = ToRoomExcept ''ABC12345'' ''s1'', delivered = {''s2''},
       message = FileMeta ''a.bin'' 2147483648 ''text/plain''\<rparr>]"
proof -
  let ?st = "joinSession ''s2'' ''ABC12345'' (createSession ''s1'' ''ABC12345'' initial)"
  have live: "map_of (sessions ?st) ''ABC12345'' \<noteq> None"
    by (simp add: joinSession_def createSession_def cleanupSession_def setTimeout_def
        join_def emit_def initial_def)
  have rm: "rooms ?st ''ABC12345'' - {''s1''} = {''s2''}"
    by (auto simp add: joinSession_def createSession_def cleanupSession_def setTimeout_def
        join_def emit_def initial_def)
  have over: "(2147483649::int) > MAX_FILE_SIZE" and at: "(2147483648::int) \<le> MAX_FILE_SIZE"
    by (simp_all add: MAX_FILE_SIZE_def)
  from fileMeta_size_ceiling [OF live, of 2147483649 "''s1''" "''a.bin''" "''text/plain''"] over
  have "fileMeta ''s1'' ''a.bin'' 2147483649 ''text/plain'' ''ABC12345'' ?st =
     ?st\<lparr>outbox := outbox ?st @ [\<lparr>target = ToSocket ''s1'', delivered = {''s1''},
       message = ErrorMsg ''File size exceeds 2GB limit''\<rparr>]\<rparr>"
    by blast
  then have a: "outbox (fileMeta ''s1'' ''a.bin'' 2147483649 ''text/plain'' ''ABC12345'' ?st) =
     outbox ?st @ [\<lparr>target = ToSocket ''s1'', delivered = {''s1''},
       message = ErrorMsg ''File size exceeds 2GB limit''\<rparr>]"
    by simp
  from fileMeta_size_ceiling [OF live, of 2147483648 "''s1''" "''a.bin''" "''text/plain''"] at
  have "fileMeta ''s1'' ''a.bin'' 2147483648 ''text/plain'' ''ABC12345'' ?st =
     ?st\<lparr>outbox := outbox ?st @ [\<lparr>target = ToRoomExcept ''ABC12345'' ''s1'',
       delivered = rooms ?st ''ABC12345'' - {''s1''},
       message = FileMeta ''a.bin'' 2147483648 ''text/plain''\<rparr>]\<rparr>"
    by blast
  then have b: "outbox (fileMeta ''s1'' ''a.bin'' 2147483648 ''text/plain'' ''ABC12345'' ?st) =
     outbox ?st @ [\<lparr>target = ToRoomExcept ''ABC12345'' ''s1'', delivered = {''s2''},
       message = FileMeta ''a.bin'' 2147483648 ''text/plain''\<rparr>]"
    unfolding rm by simp
  from a b show ?thesis by (rule conjI)
qed

subsection \<open>Joining a code that has no session\<close>

text \<open>
  C8. A \<^verbatim>\<open>join-session\<close> request for a code with no live session emits
  \<^verbatim>\<open>invalid-session\<close> to the requesting connection and does nothing else: the only
  change of the server state is that one emission, delivered to the caller alone; the
  registry, the timers, the rooms and the uploads are as before.
\<close>

theorem joinSession_nonexistent:
  assumes "map_of (sessions st) c = None"
  shows "joinSession sid c st =
           st\<lparr>outbox := outbox st @
              [\<lparr>target = ToSocket sid, delivered = {sid}, message = InvalidSession\<rparr>]\<rparr>
       \<and> sessions (joinSession sid c st) = sessions st
       \<and> timers (joinSession sid c st) = timers st
       \<and> rooms (joinSession sid c st) = rooms st
       \<and> uploads (joinSession sid c st) = uploads st"
  using assms by (simp add: joinSession_def emit_def)

theorem joinSession_nonexistent_witness:
  "joinSession ''s2'' ''XYZ'' (createSession ''s1'' ''ABC12345'' initial) =
     (createSession ''s1'' ''ABC12345'' initial)
       \<lparr>outbox := outbox (createSession ''s1'' ''ABC12345'' initial) @
          [\<lparr>target = ToSocket ''s2'', delivered = {''s2''}, message = InvalidSession\<rparr>]\<rparr>
   \<and> rooms (joinSession ''s2'' ''XYZ'' (createSession ''s1'' ''ABC12345'' initial)) ''XYZ'' = {}"
proof -
  let ?st = "createSession ''s1'' ''ABC12345'' initial"
  have absent: "map_of (sessions ?st) ''XYZ'' = None"
    by (simp add: createSession_def cleanupSession_def setTimeout_def join_def emit_def
        initial_def)
  have r: "rooms ?st ''XYZ'' = {}"
    by (simp add: createSession_def cleanupSession_def setTimeout_def join_def emit_def
        initial_def)
  note w = joinSession_nonexistent [OF absent, of "''s2''"]
  from w have a: "joinSession ''s2'' ''XYZ'' ?st =
     ?st\<lparr>outbox := outbox ?st @
          [\<lparr>target = ToSocket ''s2'', delivered = {''s2''}, message = InvalidSession\<rparr>]\<rparr>"
    by (rule conjunct1)
  from w have "rooms (joinSession ''s2'' ''XYZ'' ?st) = rooms ?st" by blast
  with r have b: "rooms (joinSession ''s2'' ''XYZ'' ?st) ''XYZ'' = {}" by (simp only:)
  from a b show ?thesis by (rule conjI)
qed

subsection \<open>The receiver's completion signal\<close>

text \<open>
  C5. The \<^verbatim>\<open>transfer-complete\<close> listener of the receiver marks every file entry whose
  status is \<^verbatim>\<open>transferring\<close> as \<^verbatim>\<open>completed\<close> and leaves every other status as it
  is; no other field of an entry changes, and the byte counter and the declared size are
  not consulted.
\<close>

theorem transferComplete_marks:
  "map status (files (transferCompleteListener st)) =
     map (\<lambda>f. if status f = Some Transferring then Some Completed else status f) (files st)
   \<and> map (\<lambda>f. (id_fd f, name f, size_fd f, type_fd f, file_fd f, received f, chunks f))
        (files (transferCompleteListener st)) =
     map (\<lambda>f. (id_fd f, name f, size_fd f, type_fd f, file_fd f, received f, chunks f)) (files st)"
  by (simp add: transferCompleteListener_def comp_def)

theorem transferComplete_marks_witness:
  "map status (files (transferCompleteListener
      \<lparr>sessionCode = ''ABC12345'', status_type = transferring,
       files =
         [\<lparr>id_fd = ''f1'', name = ''a.txt'', size_fd = 128000, type_fd = ''text/plain'',
           file_fd = None, received = Some 5, chunks = Some [[1, 2, 3, 4, 5]],
           status = Some Transferring\<rparr>,
          \<lparr>id_fd = ''f2'', name = ''b.txt'', size_fd = 7, type_fd = ''text/plain'',
           file_fd = None, received = Some 0, chunks = Some [], status = Some Pending\<rparr>],
       transferProgress = Map.empty, peerConnected = True, speedRef = (0, 0)\<rparr>))
   = [Some Completed, Some Pending]"
proof -
  let ?st = "\<lparr>sessionCode = ''ABC12345'', status_type = transferring,
       files =
         [\<lparr>id_fd = ''f1'', name = ''a.txt'', size_fd = 128000, type_fd = ''text/plain'',
           file_fd = None, received = Some 5, chunks = Some [[1, 2, 3, 4, 5]],
           status = Some Transferring\<rparr>,
          \<lparr>id_fd = ''f2'', name = ''b.txt'', size_fd = 7, type_fd = ''text/plain'',
           file_fd = None, received = Some 0, chunks = Some [], status = Some Pending\<rparr>],
       transferProgress = Map.empty, peerConnected = True, speedRef = (0, 0)\<rparr>"
  from transferComplete_marks [of ?st]
  have "map status (files (transferCompleteListener ?st)) =
     map (\<lambda>f. if status f = Some Transferring then Some Completed else status f) (files ?st)"
    by (rule conjunct1)
  also have "\<dots> = [Some Completed, Some Pending]" by simp
  finally show ?thesis .
qed

subsection \<open>A chunk with no open file entry\<close>

text \<open>
  C10. When the file list the \<^verbatim>\<open>file-chunk\<close> listener reads is empty, the chunk is
  discarded: the listener returns the state it was given, so no chunk is appended, no
  counter moves, no entry appears, and there is no error path.
\<close>

theorem fileChunk_empty_list:
  "fileChunkListener [] tp0 now spd chunk progress st = st"
  by (simp add: fileChunkListener_def lastFileOf_def)


end
